theory Spec2Isabelle
  imports Main
begin

section \<open>Data model of the domain checker\<close>

text \<open>
  The checker of \<^verbatim>\<open>apps/greencheck/domain_check.py\<close> reads three things outside itself:
  the system resolver, the IP to ASN service and the two registry tables. They are
  gathered in a record \<open>world\<close>, passed to every function that reads one of them.
  An address is the integer value of an IPv4 address (\<^verbatim>\<open>socket.gethostbyname\<close> only
  yields IPv4), which is also what the registry columns are compared on.
\<close>

type_synonym ip_address = nat
type_synonym datetime = nat

text \<open>The exceptions the checker can meet: the resolver's \<^verbatim>\<open>socket.gaierror\<close>, ipwhois'
  \<^verbatim>\<open>IPDefinedError\<close> for a private or reserved address, any other exception of the ASN
  lookup, and the \<^verbatim>\<open>ValueError\<close> of an integer column queried with a non-numeric string.\<close>

datatype error = gaierror | IPDefinedError | OtherException string | ValueError string

text \<open>A row of \<^verbatim>\<open>GreencheckIp\<close>, with the fields the checker reads.\<close>

record greencheck_ip =
  range_id :: nat
  ip_start :: ip_address
  ip_end :: ip_address
  range_hostingprovider :: nat

text \<open>A row of \<^verbatim>\<open>GreencheckASN\<close>; \<open>active\<close> is the flag that the API's destroy action
  clears (\<^verbatim>\<open>test_get_asn_delete\<close>).\<close>

record greencheck_asn =
  asn_id :: nat
  asn :: int
  active :: bool
  asn_hostingprovider :: nat

text \<open>\<^verbatim>\<open>legacy_workers.SiteCheck\<close>, with the nine fields the checker passes by keyword.\<close>

record sitecheck =
  url :: string
  ip :: string
  data :: bool
  green :: bool
  hosting_provider_id :: "nat option"
  match_type :: "string option"
  match_ip_range :: "nat option"
  cached :: bool
  checked_at :: datetime

text \<open>What \<^verbatim>\<open>asn_from_ip\<close> hands back: \<^verbatim>\<open>res["asn"]\<close> is an \<^verbatim>\<open>int\<close> or a \<^verbatim>\<open>str\<close>.\<close>

datatype asn_result = AsnInt int | AsnStr string

text \<open>The three kinds of value \<^verbatim>\<open>check_for_matching_asn\<close> returns: \<^verbatim>\<open>False\<close>, \<^verbatim>\<open>None\<close>
  (also by falling off the end of the loop) and a model instance.\<close>

datatype 'a py_value = PyFalse | PyNone | PyObj 'a

record world =
  gethostbyname :: "string \<Rightarrow> error + ip_address"
  ipasn_lookup :: "ip_address \<Rightarrow> error + asn_result"
  GreencheckIp_objects :: "greencheck_ip list"
  GreencheckASN_objects :: "greencheck_asn list"

text \<open>
  \<open>gethostbyname\<close> stands for \<^verbatim>\<open>socket.gethostbyname\<close> followed by
  \<^verbatim>\<open>ipaddress.ip_address\<close>, which cannot fail on the resolver's dotted quad.
  \<open>ipasn_lookup\<close> stands for \<^verbatim>\<open>IPASN(Net(ip)).lookup()["asn"]\<close>.
  \<open>GreencheckIp_objects\<close> and \<open>GreencheckASN_objects\<close> are the rows of the two tables
  in the order the default manager yields them: \<^verbatim>\<open>QuerySet.first()\<close> orders an
  unordered queryset by primary key, and \<^verbatim>\<open>models.py\<close>, which could declare another
  default ordering, is not part of the sources at hand.
\<close>

text \<open>
  Modelled from the spec: the class \<^verbatim>\<open>GreenDomain\<close> of \<^verbatim>\<open>models.py\<close> is missing. The
  spec describes the summary as a projection of the classification result holding the
  domain, the green flag and the provider reference if any.
\<close>

record green_domain =
  gd_url :: string
  gd_green :: bool
  gd_hosted_by_id :: "nat option"

text \<open>
  Modelled from the spec: \<^verbatim>\<open>GreenDomain.grey_result\<close> is missing; the spec has it
  synthesize a grey placeholder for the domain it is given.
\<close>

definition grey_result :: "string \<Rightarrow> green_domain" where
  "grey_result domain = \<lparr>gd_url = domain, gd_green = False, gd_hosted_by_id = None\<rparr>"

text \<open>
  Modelled from the spec: \<^verbatim>\<open>GreenDomain.from_sitecheck\<close> is missing; the spec has it
  project the summary from the full classification result.
\<close>

definition from_sitecheck :: "sitecheck \<Rightarrow> green_domain" where
  "from_sitecheck sc =
     \<lparr>gd_url = url sc, gd_green = green sc, gd_hosted_by_id = hosting_provider_id sc\<rparr>"

section \<open>Library behaviour the checker relies on\<close>

text \<open>\<^verbatim>\<open>QuerySet.first()\<close>: the first row, or \<^verbatim>\<open>None\<close>.\<close>

definition first :: "'a list \<Rightarrow> 'a option" where
  "first rows = (case rows of [] \<Rightarrow> None | r # _ \<Rightarrow> Some r)"

definition py_of_option :: "'a option \<Rightarrow> 'a py_value" where
  "py_of_option v = (case v of None \<Rightarrow> PyNone | Some x \<Rightarrow> PyObj x)"

text \<open>\<^verbatim>\<open>str(n)\<close> for a non-negative integer, and \<^verbatim>\<open>str\<close> of an IPv4 address.\<close>

fun decimal :: "nat \<Rightarrow> string" where
  "decimal n =
     (if n < 10 then [''0123456789'' ! n]
      else decimal (n div 10) @ [''0123456789'' ! (n mod 10)])"

declare decimal.simps [simp del]

definition ip_str :: "ip_address \<Rightarrow> string" where
  "ip_str a =
     decimal (a div 16777216 mod 256) @ ''.'' @ decimal (a div 65536 mod 256) @ ''.'' @
     decimal (a div 256 mod 256) @ ''.'' @ decimal (a mod 256)"

text \<open>\<^verbatim>\<open>s.split(" ")\<close>: a cut at every single space, empty pieces kept.\<close>

fun split_on :: "char \<Rightarrow> string \<Rightarrow> string \<Rightarrow> string list" where
  "split_on sep cur [] = [cur]"
| "split_on sep cur (c # cs) =
     (if c = sep then cur # split_on sep [] cs else split_on sep (cur @ [c]) cs)"

definition split_space :: "string \<Rightarrow> string list" where
  "split_space s = split_on (CHR '' '') [] s"

text \<open>
  \<^verbatim>\<open>int(s)\<close> for a string, which is what an \<^verbatim>\<open>IntegerField\<close> applies to the value of a
  lookup: surrounding whitespace is dropped, one sign is allowed, then decimal digits,
  with single underscores between digits. Anything else raises \<^verbatim>\<open>ValueError\<close>.
  Characters are bytes here, so the whitespace is that of the first 256 code points.
\<close>

definition py_isspace :: "char \<Rightarrow> bool" where
  "py_isspace c =
     (let n = (of_char c :: nat) in (9 \<le> n \<and> n \<le> 13) \<or> (28 \<le> n \<and> n \<le> 32) \<or> n = 133 \<or> n = 160)"

definition strip :: "string \<Rightarrow> string" where
  "strip s = rev (dropWhile py_isspace (rev (dropWhile py_isspace s)))"

definition digit_val :: "char \<Rightarrow> nat option" where
  "digit_val c =
     (let n = (of_char c :: nat) in if 48 \<le> n \<and> n \<le> 57 then Some (n - 48) else None)"

fun py_digits :: "nat \<Rightarrow> string \<Rightarrow> nat option" where
  "py_digits acc [] = Some acc"
| "py_digits acc [c] =
     (case digit_val c of None \<Rightarrow> None | Some v \<Rightarrow> Some (10 * acc + v))"
| "py_digits acc (c # d # ds) =
     (if c = CHR ''_'' then
        (case digit_val d of None \<Rightarrow> None | Some v \<Rightarrow> py_digits (10 * acc + v) ds)
      else
        (case digit_val c of None \<Rightarrow> None | Some v \<Rightarrow> py_digits (10 * acc + v) (d # ds)))"

definition py_unsigned :: "string \<Rightarrow> nat option" where
  "py_unsigned s =
     (case s of [] \<Rightarrow> None
      | c # cs \<Rightarrow> (case digit_val c of None \<Rightarrow> None | Some v \<Rightarrow> py_digits v cs))"

definition py_int :: "string \<Rightarrow> int option" where
  "py_int s =
     (case strip s of [] \<Rightarrow> None
      | c # cs \<Rightarrow>
          if c = CHR ''-'' then map_option (\<lambda>n. - int n) (py_unsigned cs)
          else if c = CHR ''+'' then map_option int (py_unsigned cs)
          else map_option int (py_unsigned (c # cs)))"

section \<open>The checker\<close>

text \<open>\<^verbatim>\<open>asn_from_ip\<close> and \<^verbatim>\<open>convert_domain_to_ip\<close> catch nothing: an exception of the
  service or of the resolver leaves them as it came.\<close>

definition asn_from_ip :: "world \<Rightarrow> ip_address \<Rightarrow> error + asn_result" where
  "asn_from_ip w ip_address = ipasn_lookup w ip_address"

definition convert_domain_to_ip :: "world \<Rightarrow> string \<Rightarrow> error + ip_address" where
  "convert_domain_to_ip w domain = gethostbyname w domain"

text \<open>The three constructors of a result; \<open>now\<close> is the value of \<^verbatim>\<open>timezone.now()\<close>.\<close>

definition green_sitecheck_by_ip_range ::
  "datetime \<Rightarrow> string \<Rightarrow> ip_address \<Rightarrow> greencheck_ip \<Rightarrow> sitecheck" where
  "green_sitecheck_by_ip_range now domain ip_address ip_match =
     \<lparr>url = domain, ip = ip_str ip_address, data = True, green = True,
      hosting_provider_id = Some (range_hostingprovider ip_match),
      match_type = Some ''ip'', match_ip_range = Some (range_id ip_match),
      cached = False, checked_at = now\<rparr>"

definition green_sitecheck_by_asn ::
  "datetime \<Rightarrow> string \<Rightarrow> ip_address \<Rightarrow> greencheck_asn \<Rightarrow> sitecheck" where
  "green_sitecheck_by_asn now domain ip_address matching_asn =
     \<lparr>url = domain, ip = ip_str ip_address, data = True, green = True,
      hosting_provider_id = Some (asn_hostingprovider matching_asn),
      match_type = Some ''as'', match_ip_range = Some (asn_id matching_asn),
      cached = False, checked_at = now\<rparr>"

definition grey_sitecheck :: "datetime \<Rightarrow> string \<Rightarrow> ip_address \<Rightarrow> sitecheck" where
  "grey_sitecheck now domain ip_address =
     \<lparr>url = domain, ip = ip_str ip_address, data = False, green = False,
      hosting_provider_id = None, match_type = None, match_ip_range = None,
      cached = False, checked_at = now\<rparr>"

text \<open>\<^verbatim>\<open>check_for_matching_ip_ranges\<close>: the filter on both bounds, then \<^verbatim>\<open>first()\<close>. The
  source calls no \<^verbatim>\<open>order_by\<close> between the two.\<close>

definition check_for_matching_ip_ranges :: "world \<Rightarrow> ip_address \<Rightarrow> greencheck_ip option" where
  "check_for_matching_ip_ranges w ip_address =
     (let ip_matches =
            filter (\<lambda>r. ip_end r \<ge> ip_address \<and> ip_start r \<le> ip_address)
              (GreencheckIp_objects w)
      in first ip_matches)"

text \<open>\<^verbatim>\<open>GreencheckASN.objects.filter(asn=v)\<close> for an integer and for a string, which the
  integer column first converts with \<^verbatim>\<open>int\<close>.\<close>

definition filter_asn :: "greencheck_asn list \<Rightarrow> int \<Rightarrow> greencheck_asn list" where
  "filter_asn objects n = filter (\<lambda>e. asn e = n) objects"

definition filter_asn_str :: "greencheck_asn list \<Rightarrow> string \<Rightarrow> error + greencheck_asn list" where
  "filter_asn_str objects s =
     (case py_int s of None \<Rightarrow> Inl (ValueError s) | Some n \<Rightarrow> Inr (filter_asn objects n))"

text \<open>The loop over the candidates of a string result: a non-empty queryset is truthy
  and ends the loop; falling off the end returns \<^verbatim>\<open>None\<close>.\<close>

fun asn_loop :: "greencheck_asn list \<Rightarrow> string list \<Rightarrow> error + greencheck_asn py_value" where
  "asn_loop objects [] = Inr PyNone"
| "asn_loop objects (a # asns) =
     (case filter_asn_str objects a of
        Inl e \<Rightarrow> Inl e
      | Inr asn_match \<Rightarrow>
          if asn_match \<noteq> [] then Inr (py_of_option (first asn_match))
          else asn_loop objects asns)"

text \<open>\<^verbatim>\<open>check_for_matching_asn\<close>: both \<^verbatim>\<open>except\<close> clauses return \<^verbatim>\<open>False\<close> (the second
  one after writing the exception to the log, which no value depends on); the queries
  after the \<^verbatim>\<open>try\<close> are not guarded.\<close>

definition check_for_matching_asn :: "world \<Rightarrow> ip_address \<Rightarrow> error + greencheck_asn py_value" where
  "check_for_matching_asn w ip_address =
     (case asn_from_ip w ip_address of
        Inl e \<Rightarrow> (if e = IPDefinedError then Inr PyFalse else Inr PyFalse)
      | Inr (AsnInt asn_result) \<Rightarrow>
          Inr (py_of_option (first (filter_asn (GreencheckASN_objects w) asn_result)))
      | Inr (AsnStr asn_result) \<Rightarrow>
          asn_loop (GreencheckASN_objects w) (split_space asn_result))"

text \<open>\<^verbatim>\<open>check_domain\<close>: the two walrus tests are on truthiness; a model instance is
  truthy, \<^verbatim>\<open>None\<close> and \<^verbatim>\<open>False\<close> are not.\<close>

definition check_domain :: "world \<Rightarrow> datetime \<Rightarrow> string \<Rightarrow> error + sitecheck" where
  "check_domain w now domain =
     (case convert_domain_to_ip w domain of
        Inl e \<Rightarrow> Inl e
      | Inr ip_address \<Rightarrow>
          (case check_for_matching_ip_ranges w ip_address of
             Some ip_match \<Rightarrow> Inr (green_sitecheck_by_ip_range now domain ip_address ip_match)
           | None \<Rightarrow>
               (case check_for_matching_asn w ip_address of
                  Inl e \<Rightarrow> Inl e
                | Inr (PyObj matching_asn) \<Rightarrow>
                    Inr (green_sitecheck_by_asn now domain ip_address matching_asn)
                | Inr _ \<Rightarrow> Inr (grey_sitecheck now domain ip_address))))"

definition perform_full_lookup :: "world \<Rightarrow> datetime \<Rightarrow> string \<Rightarrow> error + green_domain" where
  "perform_full_lookup w now domain =
     (case check_domain w now domain of
        Inl e \<Rightarrow> Inl e
      | Inr res \<Rightarrow>
          if \<not> green res then Inr (grey_result (url res))
          else Inr (from_sitecheck res))"

text \<open>\<^verbatim>\<open>grey_urls_only\<close>: the list comprehension over \<^verbatim>\<open>urls_list\<close>, with Python's
  \<^verbatim>\<open>not in\<close> on the list of the queryset's urls.\<close>

definition grey_urls_only :: "string list \<Rightarrow> green_domain list \<Rightarrow> string list" where
  "grey_urls_only urls_list queryset =
     (let green_list = map gd_url queryset
      in filter (\<lambda>u. u \<notin> set green_list) urls_list)"

text \<open>\<^verbatim>\<open>build_green_greylist\<close>: the loop appends one grey result per domain; the slice
  \<^verbatim>\<open>green_list[::1]\<close> is a copy of the green list.\<close>

definition build_green_greylist :: "string list \<Rightarrow> green_domain list \<Rightarrow> green_domain list" where
  "build_green_greylist grey_list green_list =
     (let grey_domains = foldl (\<lambda>acc domain. acc @ [grey_result domain]) [] grey_list;
          evaluated_green_queryset = green_list
      in evaluated_green_queryset @ grey_domains)"

section \<open>Concrete worlds for the examples\<close>

text \<open>Two overlapping ranges, the wider one carrying the lower primary key: 10.0.0.0 to
  10.0.255.255 and, inside it, 10.0.1.0 to 10.0.1.255. The host resolves to 10.0.1.10.\<close>

definition wide_range :: greencheck_ip where
  "wide_range = \<lparr>range_id = 1, ip_start = 167772160, ip_end = 167837695, range_hostingprovider = 10\<rparr>"

definition narrow_range :: greencheck_ip where
  "narrow_range = \<lparr>range_id = 2, ip_start = 167772416, ip_end = 167772671, range_hostingprovider = 20\<rparr>"

definition overlap_world :: world where
  "overlap_world =
     \<lparr>gethostbyname = (\<lambda>d. if d = ''shop.example'' then Inr 167772426 else Inl gaierror),
      ipasn_lookup = (\<lambda>a. Inl IPDefinedError),
      GreencheckIp_objects = [wide_range, narrow_range],
      GreencheckASN_objects = []\<rparr>"

text \<open>An ASN entry after the API's destroy action: still in the table, not active.\<close>

definition retired_asn :: greencheck_asn where
  "retired_asn = \<lparr>asn_id = 1, asn = 12345, active = False, asn_hostingprovider = 10\<rparr>"

definition retired_world :: world where
  "retired_world =
     \<lparr>gethostbyname = (\<lambda>d. if d = ''old.example'' then Inr 134744072 else Inl gaierror),
      ipasn_lookup = (\<lambda>a. Inr (AsnInt 12345)),
      GreencheckIp_objects = [],
      GreencheckASN_objects = [retired_asn]\<rparr>"

text \<open>One active entry for AS 2222, and a service that answers with a given string.\<close>

definition listed_asn :: greencheck_asn where
  "listed_asn = \<lparr>asn_id = 7, asn = 2222, active = True, asn_hostingprovider = 3\<rparr>"


text \<open>A world whose ASN lookup always fails: with \<^verbatim>\<open>IPDefinedError\<close> for 127.0.0.1, with a
  timeout for any other address. The second world differs from it in the answer of the
  service only.\<close>

definition loopback_world :: world where
  "loopback_world =
     \<lparr>gethostbyname = (\<lambda>d. if d = ''localhost'' then Inr 2130706433
                            else if d = ''slow.example'' then Inr 134744072 else Inl gaierror),
      ipasn_lookup = (\<lambda>a. if a = 2130706433 then Inl IPDefinedError
                           else Inl (OtherException ''timed out'')),
      GreencheckIp_objects = [],
      GreencheckASN_objects = [listed_asn]\<rparr>"

definition answering_world :: world where
  "answering_world = loopback_world\<lparr>ipasn_lookup := (\<lambda>a. Inr (AsnInt 2222))\<rparr>"

section \<open>Properties\<close>

lemmas eval_defs = check_domain_def convert_domain_to_ip_def check_for_matching_ip_ranges_def
  check_for_matching_asn_def asn_from_ip_def filter_asn_def filter_asn_str_def first_def
  py_of_option_def split_space_def py_int_def strip_def py_isspace_def py_unsigned_def digit_val_def

subsection \<open>Helper lemmas\<close>

lemma first_map: "first (map f xs) = map_option f (first xs)"
  by (cases xs) (simp_all add: first_def)

lemma first_filter_find: "first (filter P xs) = find P xs"
  by (induction xs) (simp_all add: first_def)

lemma py_of_option_map: "py_of_option (map_option f v) = map_py_value f (py_of_option v)"
  by (cases v) (simp_all add: py_of_option_def)


lemma filter_asn_set_active:
  "filter_asn (map (\<lambda>e. e\<lparr>active := f e\<rparr>) objects) n =
   map (\<lambda>e. e\<lparr>active := f e\<rparr>) (filter_asn objects n)"
  by (induction objects) (simp_all add: filter_asn_def)

lemma asn_loop_set_active:
  "asn_loop (map (\<lambda>e. e\<lparr>active := f e\<rparr>) objects) cands =
   map_sum id (map_py_value (\<lambda>e. e\<lparr>active := f e\<rparr>)) (asn_loop objects cands)"
proof (induction cands)
  case Nil
  show ?case by simp
next
  case (Cons c cands)
  show ?case
  proof (cases "py_int c")
    case None
    then show ?thesis by (simp add: filter_asn_str_def)
  next
    case (Some n)
    then show ?thesis using Cons.IH
      by (simp add: filter_asn_str_def filter_asn_set_active first_map py_of_option_map)
  qed
qed


lemma foldl_append_grey:
  "foldl (\<lambda>acc domain. acc @ [grey_result domain]) acc0 xs = acc0 @ map grey_result xs"
  by (induction xs arbitrary: acc0) simp_all

text \<open>What \<^verbatim>\<open>check_for_matching_ip_ranges\<close> does return: the first range, in the order of
  the default manager, that holds the address. So an address in no range gets \<^verbatim>\<open>None\<close>,
  and an address in exactly one range gets that range.\<close>

lemma check_for_matching_ip_ranges_find:
  "check_for_matching_ip_ranges w a =
   find (\<lambda>r. ip_end r \<ge> a \<and> ip_start r \<le> a) (GreencheckIp_objects w)"
  by (simp add: check_for_matching_ip_ranges_def first_filter_find)

subsection \<open>Matching against the IP ranges\<close>

text \<open>
  C1: for an address held by several registered ranges, the range returned should be the
  one with the smallest span. The docstring and the comment of
  \<^verbatim>\<open>check_for_matching_ip_ranges\<close> say so, but the function takes \<^verbatim>\<open>first()\<close> of the
  filtered queryset without ordering it. With the wider range first in the table, the
  address 10.0.1.10 is matched to the wider range, although the narrower range holds it
  too.
\<close>

theorem check_for_matching_ip_ranges_not_smallest:
  "check_for_matching_ip_ranges overlap_world 167772426 = Some wide_range \<and>
   ip_start narrow_range \<le> 167772426 \<and> 167772426 \<le> ip_end narrow_range \<and>
   ip_end narrow_range - ip_start narrow_range < ip_end wide_range - ip_start wide_range"
  by (simp add: eval_defs overlap_world_def wide_range_def narrow_range_def)

subsection \<open>Matching against the ASN registry\<close>

text \<open>
  C2: an entry whose \<open>active\<close> flag is false should never be returned by
  \<^verbatim>\<open>check_for_matching_asn\<close>. The API's destroy action only clears the flag and keeps the
  row (\<^verbatim>\<open>test_get_asn_delete\<close>), and the tests count the live entries with
  \<^verbatim>\<open>filter(asn=12345, active=True)\<close>; the two queries of the checker leave the flag out.
  Here the only entry for AS 12345 has been destroyed, the lookup reports 12345, and the
  destroyed entry is returned as the match.
\<close>

theorem check_for_matching_asn_returns_inactive:
  "check_for_matching_asn retired_world 134744072 = Inr (PyObj retired_asn) \<and>
   asn retired_asn = 12345 \<and> \<not> active retired_asn"
  by (simp add: eval_defs retired_world_def retired_asn_def)

text \<open>
  The same holds for any registry: when the lookup reports an integer, the first entry
  with that ASN is returned whatever its flag, and no value of the flags changes the
  outcome of the function.
\<close>

lemma check_for_matching_asn_int_first:
  assumes "asn_from_ip w a = Inr (AsnInt n)"
    and "find (\<lambda>e. asn e = n) (GreencheckASN_objects w) = Some e"
  shows "check_for_matching_asn w a = Inr (PyObj e)"
  using assms
  by (simp add: check_for_matching_asn_def filter_asn_def first_filter_find py_of_option_def)

lemma check_for_matching_asn_flag_unread:
  "check_for_matching_asn
     (w\<lparr>GreencheckASN_objects := map (\<lambda>e. e\<lparr>active := f e\<rparr>) (GreencheckASN_objects w)\<rparr>) a =
   map_sum id (map_py_value (\<lambda>e. e\<lparr>active := f e\<rparr>)) (check_for_matching_asn w a)"
  by (simp add: check_for_matching_asn_def asn_from_ip_def filter_asn_set_active first_map
      py_of_option_map asn_loop_set_active split: sum.splits asn_result.splits)




subsection \<open>Checking a domain\<close>

text \<open>
  C3: an address that resolves and whose ASN lookup fails, with \<^verbatim>\<open>IPDefinedError\<close> for a
  private or reserved address or with any other exception, gives no exception to the
  caller of \<^verbatim>\<open>check_domain\<close>: \<^verbatim>\<open>check_for_matching_asn\<close> returns \<^verbatim>\<open>False\<close> and the result is
  the grey one. The lookup is made only for an address that no registered range holds
  (the range test of \<^verbatim>\<open>check_domain\<close> comes first and returns), which is the second
  premise.
\<close>

theorem check_domain_grey_on_lookup_failure:
  assumes "convert_domain_to_ip w domain = Inr a" and "check_for_matching_ip_ranges w a = None"
    and "asn_from_ip w a = Inl e"
  shows "check_for_matching_asn w a = Inr PyFalse \<and>
         check_domain w now domain = Inr (grey_sitecheck now domain a)"
  using assms by (simp add: check_domain_def check_for_matching_asn_def)

theorem check_domain_grey_on_lookup_failure_witness:
  "convert_domain_to_ip loopback_world ''localhost'' = Inr 2130706433 \<and>
   check_for_matching_ip_ranges loopback_world 2130706433 = None \<and>
   asn_from_ip loopback_world 2130706433 = Inl IPDefinedError \<and>
   check_for_matching_asn loopback_world 2130706433 = Inr PyFalse \<and>
   check_domain loopback_world 0 ''localhost'' = Inr (grey_sitecheck 0 ''localhost'' 2130706433) \<and>
   convert_domain_to_ip loopback_world ''slow.example'' = Inr 134744072 \<and>
   check_for_matching_ip_ranges loopback_world 134744072 = None \<and>
   asn_from_ip loopback_world 134744072 = Inl (OtherException ''timed out'') \<and>
   check_for_matching_asn loopback_world 134744072 = Inr PyFalse \<and>
   check_domain loopback_world 0 ''slow.example'' = Inr (grey_sitecheck 0 ''slow.example'' 134744072)"
proof -
  have r: "convert_domain_to_ip loopback_world ''localhost'' = Inr 2130706433"
    by (simp add: convert_domain_to_ip_def loopback_world_def)
  have n: "check_for_matching_ip_ranges loopback_world 2130706433 = None"
    by (simp add: check_for_matching_ip_ranges_def first_def loopback_world_def)
  have l: "asn_from_ip loopback_world 2130706433 = Inl IPDefinedError"
    by (simp add: asn_from_ip_def loopback_world_def)
  have r': "convert_domain_to_ip loopback_world ''slow.example'' = Inr 134744072"
    by (simp add: convert_domain_to_ip_def loopback_world_def)
  have n': "check_for_matching_ip_ranges loopback_world 134744072 = None"
    by (simp add: check_for_matching_ip_ranges_def first_def loopback_world_def)
  have l': "asn_from_ip loopback_world 134744072 = Inl (OtherException ''timed out'')"
    by (simp add: asn_from_ip_def loopback_world_def)
  from check_domain_grey_on_lookup_failure [OF r n l, of 0] check_domain_grey_on_lookup_failure [OF r' n' l', of 0] r n l r' n' l' show ?thesis
    by simp
qed

text \<open>
  C4: when the resolver raises for a host, \<^verbatim>\<open>check_domain\<close> raises the same exception and
  produces no result.
\<close>

theorem check_domain_propagates_resolution_error:
  "gethostbyname w domain = Inl e \<Longrightarrow> check_domain w now domain = Inl e"
  by (simp add: check_domain_def convert_domain_to_ip_def)

theorem check_domain_propagates_resolution_error_witness:
  "gethostbyname loopback_world ''nowhere.invalid'' = Inl gaierror \<and>
   check_domain loopback_world 0 ''nowhere.invalid'' = Inl gaierror"
proof -
  have h: "gethostbyname loopback_world ''nowhere.invalid'' = Inl gaierror"
    by (simp add: loopback_world_def)
  from check_domain_propagates_resolution_error [OF h, of 0] h show ?thesis by simp
qed

text \<open>
  C5 as stated, with only the resolution and the two registries held unchanged, does not
  hold: the result also depends on the answer of the ASN lookup service. The two worlds
  below have the same resolver and the same registries; in the first the lookup times
  out and the result is grey, in the second it answers 2222 and the result is green.
\<close>

theorem check_domain_differs_when_lookup_changes:
  "gethostbyname answering_world = gethostbyname loopback_world \<and>
   GreencheckIp_objects answering_world = GreencheckIp_objects loopback_world \<and>
   GreencheckASN_objects answering_world = GreencheckASN_objects loopback_world \<and>
   check_domain loopback_world 0 ''slow.example'' = Inr (grey_sitecheck 0 ''slow.example'' 134744072) \<and>
   check_domain answering_world 0 ''slow.example'' = Inr (green_sitecheck_by_asn 0 ''slow.example'' 134744072 listed_asn) \<and>
   green (grey_sitecheck 0 ''slow.example'' 134744072) \<noteq> green (green_sitecheck_by_asn 0 ''slow.example'' 134744072 listed_asn)"
  by (simp add: eval_defs answering_world_def loopback_world_def listed_asn_def grey_sitecheck_def green_sitecheck_by_asn_def)

text \<open>
  C5, amended: two calls of \<^verbatim>\<open>check_domain\<close> on the same host, with the resolution, the
  answers of the ASN lookup service and the two registries unchanged between them, raise
  the same exception or return results equal in every field except \<open>checked_at\<close>.
\<close>

theorem check_domain_same_up_to_timestamp:
  assumes "gethostbyname w' = gethostbyname w" and "ipasn_lookup w' = ipasn_lookup w"
    and "GreencheckIp_objects w' = GreencheckIp_objects w"
    and "GreencheckASN_objects w' = GreencheckASN_objects w"
  shows "check_domain w' t2 domain = map_sum id (\<lambda>r. r\<lparr>checked_at := t2\<rparr>) (check_domain w t1 domain)"
proof -
  have ip: "check_for_matching_ip_ranges w' a = check_for_matching_ip_ranges w a" for a
    unfolding check_for_matching_ip_ranges_def assms(3) by (rule refl)
  have asn: "check_for_matching_asn w' a = check_for_matching_asn w a" for a
    unfolding check_for_matching_asn_def asn_from_ip_def assms(2,4) by (rule refl)
  have dns: "convert_domain_to_ip w' d = convert_domain_to_ip w d" for d
    unfolding convert_domain_to_ip_def assms(1) by (rule refl)
  show ?thesis
    by (simp add: check_domain_def ip asn dns green_sitecheck_by_ip_range_def
        green_sitecheck_by_asn_def grey_sitecheck_def
        split: sum.splits option.splits py_value.splits)
qed

theorem check_domain_same_up_to_timestamp_witness:
  "check_domain loopback_world 5 ''localhost'' = Inr (grey_sitecheck 5 ''localhost'' 2130706433) \<and>
   check_domain (loopback_world\<lparr>GreencheckIp_objects := []\<rparr>) 99 ''localhost'' =
     Inr ((grey_sitecheck 5 ''localhost'' 2130706433)\<lparr>checked_at := 99\<rparr>)"
proof -
  have e: "check_domain loopback_world 5 ''localhost'' = Inr (grey_sitecheck 5 ''localhost'' 2130706433)"
    by (simp add: eval_defs loopback_world_def)
  have "check_domain (loopback_world\<lparr>GreencheckIp_objects := []\<rparr>) 99 ''localhost'' =
        map_sum id (\<lambda>r. r\<lparr>checked_at := 99\<rparr>) (check_domain loopback_world 5 ''localhost'')"
    by (rule check_domain_same_up_to_timestamp) (simp_all add: loopback_world_def)
  with e show ?thesis by simp
qed

text \<open>
  C10: every result of \<^verbatim>\<open>check_domain\<close> has \<open>green\<close> equal to \<open>data\<close>, \<open>cached\<close> false,
  \<open>url\<close> the domain given and \<open>ip\<close> the string of the resolved address; it carries a
  provider id exactly when it is green, and a match type exactly when it is green.
\<close>

theorem check_domain_result_invariants:
  assumes "check_domain w now domain = Inr r"
  shows "green r = data r \<and> \<not> cached r \<and> url r = domain \<and>
         (\<exists>a. convert_domain_to_ip w domain = Inr a \<and> ip r = ip_str a) \<and>
         (hosting_provider_id r \<noteq> None) = green r \<and> (match_type r \<noteq> None) = green r"
  using assms
  by (auto simp add: check_domain_def green_sitecheck_by_ip_range_def green_sitecheck_by_asn_def
      grey_sitecheck_def split: sum.splits option.splits py_value.splits)

theorem check_domain_result_invariants_witness:
  "check_domain loopback_world 7 ''localhost'' = Inr (grey_sitecheck 7 ''localhost'' 2130706433) \<and>
   \<not> green (grey_sitecheck 7 ''localhost'' 2130706433) \<and>
   hosting_provider_id (grey_sitecheck 7 ''localhost'' 2130706433) = None \<and>
   match_type (grey_sitecheck 7 ''localhost'' 2130706433) = None \<and>
   ip (grey_sitecheck 7 ''localhost'' 2130706433) = ''127.0.0.1'' \<and>
   check_domain overlap_world 7 ''shop.example'' =
     Inr (green_sitecheck_by_ip_range 7 ''shop.example'' 167772426 wide_range) \<and>
   green (green_sitecheck_by_ip_range 7 ''shop.example'' 167772426 wide_range) \<and>
   hosting_provider_id (green_sitecheck_by_ip_range 7 ''shop.example'' 167772426 wide_range) = Some 10 \<and>
   match_type (green_sitecheck_by_ip_range 7 ''shop.example'' 167772426 wide_range) = Some ''ip'' \<and>
   ip (green_sitecheck_by_ip_range 7 ''shop.example'' 167772426 wide_range) = ''10.0.1.10''"
proof -
  have g: "check_domain loopback_world 7 ''localhost'' = Inr (grey_sitecheck 7 ''localhost'' 2130706433)"
    by (simp add: eval_defs loopback_world_def)
  have h: "check_domain overlap_world 7 ''shop.example'' =
     Inr (green_sitecheck_by_ip_range 7 ''shop.example'' 167772426 wide_range)"
    by (simp add: eval_defs overlap_world_def wide_range_def narrow_range_def)
  from check_domain_result_invariants [OF g] check_domain_result_invariants [OF h] g h show ?thesis
    by (simp add: grey_sitecheck_def green_sitecheck_by_ip_range_def wide_range_def
        ip_str_def decimal.simps)
qed

text \<open>
  C7: \<^verbatim>\<open>perform_full_lookup\<close> returns, for a grey result of \<^verbatim>\<open>check_domain\<close>, the grey
  summary of the domain string it was called with, and for a green result the summary
  projected from that result.
\<close>

theorem perform_full_lookup_summary:
  assumes "check_domain w now domain = Inr r"
  shows "perform_full_lookup w now domain = Inr (if green r then from_sitecheck r else grey_result domain)
     \<and> gd_url (grey_result domain) = domain"
  using assms
  by (auto simp add: perform_full_lookup_def check_domain_def green_sitecheck_by_ip_range_def green_sitecheck_by_asn_def
      grey_sitecheck_def grey_result_def split: sum.splits option.splits py_value.splits)

theorem perform_full_lookup_summary_witness:
  "check_domain loopback_world 7 ''localhost'' = Inr (grey_sitecheck 7 ''localhost'' 2130706433) \<and>
   perform_full_lookup loopback_world 7 ''localhost'' = Inr (grey_result ''localhost'') \<and>
   check_domain overlap_world 7 ''shop.example'' =
     Inr (green_sitecheck_by_ip_range 7 ''shop.example'' 167772426 wide_range) \<and>
   perform_full_lookup overlap_world 7 ''shop.example'' =
     Inr (from_sitecheck (green_sitecheck_by_ip_range 7 ''shop.example'' 167772426 wide_range))"
proof -
  have g: "check_domain loopback_world 7 ''localhost'' = Inr (grey_sitecheck 7 ''localhost'' 2130706433)"
    by (simp add: eval_defs loopback_world_def)
  have h: "check_domain overlap_world 7 ''shop.example'' =
     Inr (green_sitecheck_by_ip_range 7 ''shop.example'' 167772426 wide_range)"
    by (simp add: eval_defs overlap_world_def wide_range_def narrow_range_def)
  from perform_full_lookup_summary [OF g] perform_full_lookup_summary [OF h] g h show ?thesis
    by (simp add: grey_sitecheck_def green_sitecheck_by_ip_range_def)
qed

subsection \<open>Partitioning a batch\<close>

text \<open>
  C8: \<^verbatim>\<open>grey_urls_only\<close> keeps, in their order, exactly the requested hosts that are not
  the \<open>url\<close> of any of the known green summaries, compared as strings.
\<close>

theorem grey_urls_only_exact:
  "grey_urls_only urls_list queryset =
     filter (\<lambda>u. u \<notin> gd_url ` set queryset) urls_list \<and>
   grey_urls_only [''a.com'', ''b.com'']
     [\<lparr>gd_url = ''a.com'', gd_green = True, gd_hosted_by_id = Some 1\<rparr>] = [''b.com'']"
  by (simp add: grey_urls_only_def)

text \<open>
  C9: \<^verbatim>\<open>build_green_greylist\<close> returns the green summaries in their order, followed by one
  grey summary for each grey host in their order.
\<close>

theorem build_green_greylist_order:
  "build_green_greylist grey_list green_list = green_list @ map grey_result grey_list \<and>
   build_green_greylist [] [g] = [g] \<and>
   build_green_greylist [''x.com''] [] = [grey_result ''x.com'']"
  by (simp add: build_green_greylist_def foldl_append_grey)

end
